theory Spec2Isabelle
  imports Complex_Main "HOL-Library.Char_ord" "HOL-Library.List_Lexorder"
    "HOL-Library.Product_Lexorder" "HOL-Library.Multiset"
begin

section \<open>click2label: the ClickLabel session\<close>

text \<open>
  The repository is one Python class, \<^verbatim>\<open>ClickLabel\<close>, with a nested class
  \<^verbatim>\<open>SingleImage\<close>. Its methods are embedded below under their own names. Python
  strings are \<open>string\<close>, ordered as Python orders them (by code point, which is the
  lexicographic order on \<open>char list\<close>). Exceptions are values of \<open>error\<close>.
\<close>

subsection \<open>Python values and exceptions\<close>

text \<open>
  The constructor receives arbitrary Python objects, and the cells of the result table
  are what pandas made of the fields of a file. The values told apart: strings, ints,
  bools (a subclass of int), finite floats (by their value), NaN, the containers list,
  tuple, set (its elements in some order), dict (its items in insertion order) and
  generator (the values it would yield), and \<^verbatim>\<open>None\<close>.
\<close>

datatype pyval = PyStr string | PyInt int | PyBool bool | PyFloat rat | PyNaN | PyNone
  | PyList "pyval list" | PyTuple "pyval list" | PySet "pyval list"
  | PyDict "(pyval \<times> pyval) list" | PyGenerator "pyval list"

datatype error = AssertionError | TypeError | ValueError | KeyError | IndexError | OSError

text \<open>\<^verbatim>\<open>isinstance(v, str)\<close> and \<^verbatim>\<open>type(v) == str\<close> agree on these values.\<close>

fun isinstance_str :: "pyval \<Rightarrow> bool" where
  "isinstance_str (PyStr s) = True"
| "isinstance_str v = False"

fun isinstance_Iterable :: "pyval \<Rightarrow> bool" where
  "isinstance_Iterable (PyStr s) = True"
| "isinstance_Iterable (PyList xs) = True"
| "isinstance_Iterable (PyTuple xs) = True"
| "isinstance_Iterable (PySet xs) = True"
| "isinstance_Iterable (PyDict kvs) = True"
| "isinstance_Iterable (PyGenerator xs) = True"
| "isinstance_Iterable v = False"

fun isinstance_int :: "pyval \<Rightarrow> bool" where
  "isinstance_int (PyInt i) = True"
| "isinstance_int (PyBool b) = True"
| "isinstance_int v = False"

text \<open>The number a value is, if it is one; \<^verbatim>\<open>==\<close> compares numbers by value, so
  \<^verbatim>\<open>0 == False == 0.0\<close>, and NaN equals nothing.\<close>

fun num_val :: "pyval \<Rightarrow> rat option" where
  "num_val (PyInt i) = Some (of_int i)"
| "num_val (PyBool b) = Some (if b then 1 else 0)"
| "num_val (PyFloat q) = Some q"
| "num_val v = None"

definition py_eq :: "pyval \<Rightarrow> pyval \<Rightarrow> bool" where
  "py_eq a b =
     (case (num_val a, num_val b) of
        (Some x, Some y) \<Rightarrow> x = y
      | (None, None) \<Rightarrow> a = b \<and> a \<noteq> PyNaN
      | _ \<Rightarrow> False)"

text \<open>\<^verbatim>\<open>len(v)\<close>: a generator has none.\<close>

fun py_len :: "pyval \<Rightarrow> error + nat" where
  "py_len (PyStr s) = Inr (length s)"
| "py_len (PyList xs) = Inr (length xs)"
| "py_len (PyTuple xs) = Inr (length xs)"
| "py_len (PySet xs) = Inr (length xs)"
| "py_len (PyDict kvs) = Inr (length kvs)"
| "py_len v = Inl TypeError"

text \<open>\<^verbatim>\<open>v[i]\<close> for \<open>i\<close> = 0 or 1: a sequence is indexed (a string yields the
  one-character string), a dict is looked up at the key \<open>i\<close>, a set or a generator
  cannot be subscripted.\<close>

fun dict_get :: "(pyval \<times> pyval) list \<Rightarrow> pyval \<Rightarrow> pyval option" where
  "dict_get [] k = None"
| "dict_get ((k', v) # kvs) k = (if py_eq k' k then Some v else dict_get kvs k)"

fun py_getitem :: "pyval \<Rightarrow> nat \<Rightarrow> error + pyval" where
  "py_getitem (PyStr s) i = (if i < length s then Inr (PyStr [s ! i]) else Inl IndexError)"
| "py_getitem (PyList xs) i = (if i < length xs then Inr (xs ! i) else Inl IndexError)"
| "py_getitem (PyTuple xs) i = (if i < length xs then Inr (xs ! i) else Inl IndexError)"
| "py_getitem (PyDict kvs) i =
     (case dict_get kvs (PyInt (int i)) of None \<Rightarrow> Inl KeyError | Some v \<Rightarrow> Inr v)"
| "py_getitem v i = Inl TypeError"

text \<open>What iterating over a value yields: a dict yields its keys.\<close>

fun py_iter :: "pyval \<Rightarrow> pyval list" where
  "py_iter (PyStr s) = map (\<lambda>c. PyStr [c]) s"
| "py_iter (PyList xs) = xs"
| "py_iter (PyTuple xs) = xs"
| "py_iter (PySet xs) = xs"
| "py_iter (PyDict kvs) = map fst kvs"
| "py_iter (PyGenerator xs) = xs"
| "py_iter v = []"

fun int_of :: "pyval \<Rightarrow> int" where
  "int_of (PyInt i) = i"
| "int_of (PyBool b) = (if b then 1 else 0)"
| "int_of v = 0"

fun str_of :: "pyval \<Rightarrow> string" where
  "str_of (PyStr s) = s"
| "str_of v = []"

subsection \<open>Python slices\<close>

text \<open>\<^verbatim>\<open>xs[n:]\<close> and \<^verbatim>\<open>xs[:n]\<close> for any int \<open>n\<close>: a negative bound counts from
  the end and is clipped at the front.\<close>

definition slice_bound :: "int \<Rightarrow> 'a list \<Rightarrow> nat" where
  "slice_bound n xs = (if 0 \<le> n then nat n else nat (int (length xs) + n))"

definition slice_from :: "int \<Rightarrow> 'a list \<Rightarrow> 'a list" where
  "slice_from n xs = drop (slice_bound n xs) xs"

definition slice_to :: "int \<Rightarrow> 'a list \<Rightarrow> 'a list" where
  "slice_to n xs = take (slice_bound n xs) xs"

subsection \<open>The result table (a pandas DataFrame) and its CSV file\<close>

text \<open>
  The table is a DataFrame whose index holds the file names. The frame keeps the name of
  its index, the names of its other columns in order, and its rows in order; a row is the
  index value with the cells of the other columns. A cell is a \<open>pyval\<close>: a string, a
  number, or NaN. The operations below stand for the pandas calls the source makes, as
  far as the source relies on them.
\<close>

record frame =
  index_name :: string
  col_names :: "string list"
  body :: "(pyval \<times> pyval list) list"

text \<open>
  What is stored at a path is kept as \<^verbatim>\<open>pd.read_csv\<close> reads it, not as text:
  \<open>NotCsv\<close> where \<^verbatim>\<open>pd.read_csv\<close> raises (a directory, an empty or a binary file),
  otherwise the header names and the rows, each field already the value pandas infers
  for it (the field \<open>NA\<close> or an empty field is NaN, \<open>007\<close> in a column of numbers is
  the int 7, and so on).
\<close>

datatype csv_file = NotCsv | Csv "string list" "pyval list list"

fun index_of :: "'a \<Rightarrow> 'a list \<Rightarrow> nat option" where
  "index_of x [] = None"
| "index_of x (y # ys) = (if x = y then Some 0 else map_option Suc (index_of x ys))"

definition remove_nth :: "nat \<Rightarrow> 'a list \<Rightarrow> 'a list" where
  "remove_nth i xs = take i xs @ drop (Suc i) xs"

text \<open>A row with fewer fields than the header is filled up with NaN.\<close>

definition pad :: "nat \<Rightarrow> pyval list \<Rightarrow> pyval list" where
  "pad n r = r @ replicate (n - length r) PyNaN"

text \<open>\<^verbatim>\<open>pd.read_csv(path, index_col=c)\<close>: fails when the content is no table, when
  the header has no column \<open>c\<close>, or when a row has more fields than the header.\<close>

fun read_csv :: "csv_file \<Rightarrow> string \<Rightarrow> error + frame" where
  "read_csv NotCsv c = Inl ValueError"
| "read_csv (Csv header lines) c =
     (case index_of c header of
        None \<Rightarrow> Inl ValueError
      | Some i \<Rightarrow>
          if list_all (\<lambda>r. length r \<le> length header) lines
          then Inr \<lparr>index_name = c, col_names = remove_nth i header,
                    body = map (\<lambda>r. (pad (length header) r ! i,
                                      remove_nth i (pad (length header) r))) lines\<rparr>
          else Inl ValueError)"

text \<open>\<^verbatim>\<open>pd.DataFrame(columns=['filename', 'label', 'timestamp']).set_index('filename')\<close>\<close>

definition empty_table :: frame where
  "empty_table = \<lparr>index_name = ''filename'', col_names = [''label'', ''timestamp''], body = []\<rparr>"

definition cell :: "nat \<Rightarrow> pyval list \<Rightarrow> pyval" where
  "cell i cs = (if i < length cs then cs ! i else PyNaN)"

text \<open>\<^verbatim>\<open>df[c]\<close>: the cells of a column, a KeyError where there is no such column.\<close>

definition get_column :: "string \<Rightarrow> frame \<Rightarrow> error + pyval list" where
  "get_column c df =
     (case index_of c (col_names df) of
        None \<Rightarrow> Inl KeyError
      | Some i \<Rightarrow> Inr (map (\<lambda>r. cell i (snd r)) (body df)))"

text \<open>\<^verbatim>\<open>df[c] = vals\<close> with one value per row: a column of that name is overwritten,
  otherwise the column is added as the last one.\<close>

definition set_column :: "string \<Rightarrow> pyval list \<Rightarrow> frame \<Rightarrow> frame" where
  "set_column c vals df =
     (case index_of c (col_names df) of
        Some i \<Rightarrow> df\<lparr>body := map (\<lambda>(v, r). (fst r, (snd r)[i := v])) (zip vals (body df))\<rparr>
      | None \<Rightarrow> df\<lparr>col_names := col_names df @ [c],
                       body := map (\<lambda>(v, r). (fst r, snd r @ [v])) (zip vals (body df))\<rparr>)"

text \<open>
  The place of a cell in an ascending sort: numbers by value, then strings by code
  point, NaN last.
\<close>

definition sort_rank :: "pyval \<Rightarrow> nat \<times> rat \<times> string" where
  "sort_rank v =
     (case v of
        PyStr s \<Rightarrow> (1, 0, s)
      | PyNaN \<Rightarrow> (3, 0, [])
      | _ \<Rightarrow> (case num_val v of Some q \<Rightarrow> (0, q, []) | None \<Rightarrow> (2, 0, [])))"

text \<open>\<^verbatim>\<open>df.sort_values([c1, c2])\<close>: a stable ascending sort by the two columns, a
  KeyError where one is missing.\<close>

definition sort_values :: "string \<Rightarrow> string \<Rightarrow> frame \<Rightarrow> error + frame" where
  "sort_values c1 c2 df =
     (case index_of c1 (col_names df) of
        None \<Rightarrow> Inl KeyError
      | Some i1 \<Rightarrow>
          (case index_of c2 (col_names df) of
             None \<Rightarrow> Inl KeyError
           | Some i2 \<Rightarrow>
               Inr (df\<lparr>body := sort_key (\<lambda>r. (sort_rank (cell i1 (snd r)),
                                                 sort_rank (cell i2 (snd r)))) (body df)\<rparr>)))"

text \<open>\<^verbatim>\<open>df.drop(c, axis=1)\<close>\<close>

definition drop_column :: "string \<Rightarrow> frame \<Rightarrow> error + frame" where
  "drop_column c df =
     (case index_of c (col_names df) of
        None \<Rightarrow> Inl KeyError
      | Some i \<Rightarrow> Inr (df\<lparr>col_names := remove_nth i (col_names df),
                            body := map (\<lambda>(k, cs). (k, remove_nth i cs)) (body df)\<rparr>))"

text \<open>\<^verbatim>\<open>df.loc[k] = vals\<close> for a string \<open>k\<close>: a list of the wrong length is refused;
  an existing key has all its rows overwritten; a new key is appended.\<close>

definition loc_set :: "frame \<Rightarrow> string \<Rightarrow> pyval list \<Rightarrow> error + frame" where
  "loc_set df k vals =
     (if length vals \<noteq> length (col_names df) then Inl ValueError
      else if PyStr k \<in> set (map fst (body df))
      then Inr (df\<lparr>body := map (\<lambda>(k', cs). if k' = PyStr k then (k', vals) else (k', cs))
                                (body df)\<rparr>)
      else Inr (df\<lparr>body := body df @ [(PyStr k, vals)]\<rparr>))"

text \<open>\<^verbatim>\<open>*df.loc[k]\<close> for a key in the index: the cells of its row, or, when several
  rows carry the key, the column names (iterating a DataFrame yields them).\<close>

definition loc_get :: "frame \<Rightarrow> string \<Rightarrow> pyval list" where
  "loc_get df k =
     (case filter (\<lambda>r. fst r = PyStr k) (body df) of
        [r] \<Rightarrow> snd r
      | _ \<Rightarrow> map PyStr (col_names df))"

subsection \<open>\<^verbatim>\<open>ClickLabel.result_table\<close>\<close>

text \<open>
  Line 83 adds the column \<open>done\<close> (\<open>label != 'None'\<close>, true of every cell that is
  not the string \<open>None\<close>), line 85 sorts by \<open>['done', 'timestamp']\<close> and drops
  \<open>done\<close> again. Whatever is raised on the way, the bare \<^verbatim>\<open>except\<close> turns it into
  the ValueError of line 87.
\<close>

definition result_table :: "(string \<rightharpoonup> csv_file) \<Rightarrow> string \<Rightarrow> error + frame" where
  "result_table disk result_path =
     (case disk result_path of
        Some content \<Rightarrow>
          (case read_csv content ''filename'' of
             Inl e \<Rightarrow> Inl ValueError
           | Inr df \<Rightarrow>
               (case get_column ''label'' df of
                  Inl e \<Rightarrow> Inl ValueError
                | Inr labels \<Rightarrow>
                    (case sort_values ''done'' ''timestamp''
                            (set_column ''done''
                               (map (\<lambda>v. PyBool (v \<noteq> PyStr ''None'')) labels) df) of
                       Inl e \<Rightarrow> Inl ValueError
                     | Inr sorted_df \<Rightarrow>
                         (case drop_column ''done'' sorted_df of
                            Inl e \<Rightarrow> Inl ValueError
                          | Inr res \<Rightarrow> Inr res))))
      | None \<Rightarrow> Inr empty_table)"

subsection \<open>The session, its tiles and the outside world\<close>

text \<open>
  A \<^verbatim>\<open>SingleImage\<close> keeps its path, its Axes, its label and its timestamp; its
  \<^verbatim>\<open>color_map\<close> and \<^verbatim>\<open>fontsize\<close> are the session's, fixed when the tile is made,
  and are passed to \<open>update\<close> instead of being copied. An Axes object is known by the
  number it got when it was created. Label and timestamp are whatever was assigned: a
  cell of the table, or a string.
\<close>

record SingleImage =
  path :: string
  ax :: nat
  label :: pyval
  timestamp :: pyval

text \<open>The keys of \<^verbatim>\<open>color_map\<close> are strings (lines 54 and 74); the values of
  \<^verbatim>\<open>click_map\<close> are what iterating over the label options yields (line 71).\<close>

record ClickLabel =
  rows :: pyval
  columns :: pyval
  fontsize :: pyval
  num :: int
  result_path :: string
  result :: frame
  image_paths :: "string list"
  images :: "SingleImage list"
  label_options :: pyval
  color_options :: pyval
  click_map :: "int \<rightharpoonup> pyval"
  color_map :: "string \<rightharpoonup> pyval"

text \<open>
  What the session can change outside itself: the files (\<open>disk\<close>) and the Axes objects
  created so far (\<open>next_ax\<close> numbers the next one).
\<close>

record world =
  disk :: "string \<rightharpoonup> csv_file"
  next_ax :: nat

text \<open>
  What the session only reads or calls:
  \<^item> \<open>listdir\<close>: \<^verbatim>\<open>os.listdir\<close>, undefined where it raises;
  \<^item> \<open>now\<close>: \<^verbatim>\<open>str(dt.now())\<close>, read once per call of a method;
  \<^item> \<open>to_rgb_ok\<close>: the colour names \<^verbatim>\<open>matplotlib.colors.to_rgb\<close> accepts;
  \<^item> \<open>figure_error\<close>, \<open>add_subplot_error\<close>: what \<^verbatim>\<open>plt.figure\<close> and
    \<^verbatim>\<open>fig.add_subplot\<close> raise, if anything, for the given grid arguments;
  \<^item> \<open>np_str\<close>: the string numpy makes of an index value that is not a string when
    it joins it with strings (line 101);
  \<^item> \<open>to_csv\<close>: \<^verbatim>\<open>df.to_csv(path)\<close>, either an OSError or the content of the
    file written (as \<^verbatim>\<open>pd.read_csv\<close> would read it afterwards).
\<close>

record env =
  listdir :: "string \<rightharpoonup> string list"
  now :: string
  to_rgb_ok :: "string \<Rightarrow> bool"
  figure_error :: "pyval \<Rightarrow> error option"
  add_subplot_error :: "pyval \<Rightarrow> pyval \<Rightarrow> nat \<Rightarrow> error option"
  np_str :: "pyval \<Rightarrow> string"
  to_csv :: "string \<Rightarrow> frame \<Rightarrow> error + csv_file"

text \<open>\<^verbatim>\<open>str(dt.now())[:-7]\<close>\<close>

definition current_time :: "env \<Rightarrow> string" where
  "current_time e = slice_to (- 7) (now e)"

subsection \<open>\<^verbatim>\<open>SingleImage.update\<close> and \<^verbatim>\<open>SingleImage.__init__\<close>\<close>

text \<open>
  \<open>update\<close> assigns label and timestamp (line 188) before it draws. Drawing changes
  nothing of the tile's state but can raise: line 205 looks the label up in the colour
  map (a KeyError for a label that is no key, so for every label that is no string),
  and line 208 resolves the colour when the label is not \<open>'None'\<close>. The tile comes back
  as it is when the exception leaves.
\<close>

fun lookup :: "(string \<rightharpoonup> pyval) \<Rightarrow> pyval \<Rightarrow> pyval option" where
  "lookup m (PyStr s) = m s"
| "lookup m v = None"

fun to_rgb_raises :: "env \<Rightarrow> pyval \<Rightarrow> bool" where
  "to_rgb_raises e (PyStr c) = (\<not> to_rgb_ok e c)"
| "to_rgb_raises e v = True"

definition update :: "env \<Rightarrow> (string \<rightharpoonup> pyval) \<Rightarrow> pyval \<Rightarrow> pyval \<Rightarrow> SingleImage
    \<Rightarrow> SingleImage \<times> error option" where
  "update e cm lbl ts img =
     (let ts' = (if ts = PyStr ''None'' then PyStr (current_time e) else ts);
          img' = img\<lparr>label := lbl, timestamp := ts'\<rparr>
      in case lookup cm lbl of
           None \<Rightarrow> (img', Some KeyError)
         | Some overlay \<Rightarrow>
             if lbl \<noteq> PyStr ''None'' \<and> to_rgb_raises e overlay then (img', Some ValueError)
             else (img', None))"

text \<open>\<^verbatim>\<open>self.update(*args)\<close> with the defaults \<open>label='None'\<close>, \<open>timestamp='None'\<close>;
  more than two positional arguments are a TypeError.\<close>

definition update_args :: "env \<Rightarrow> (string \<rightharpoonup> pyval) \<Rightarrow> pyval list \<Rightarrow> SingleImage
    \<Rightarrow> SingleImage \<times> error option" where
  "update_args e cm as img =
     (case as of
        [] \<Rightarrow> update e cm (PyStr ''None'') (PyStr ''None'') img
      | [l] \<Rightarrow> update e cm l (PyStr ''None'') img
      | [l, t] \<Rightarrow> update e cm l t img
      | _ \<Rightarrow> (img, Some TypeError))"

text \<open>The constructor returns the tile only when \<open>update\<close> did not raise. Label and
  timestamp do not exist before the first \<open>update\<close>; they start here as \<open>PyNone\<close>.\<close>

definition SingleImage_init :: "env \<Rightarrow> ClickLabel \<Rightarrow> string \<Rightarrow> nat \<Rightarrow> error + SingleImage" where
  "SingleImage_init e props p a =
     (let img = \<lparr>path = p, ax = a, label = PyNone, timestamp = PyNone\<rparr>;
          r = (if PyStr p \<in> set (map fst (body (result props)))
               then update_args e (color_map props) (loc_get (result props) p) img
               else update_args e (color_map props) [] img)
      in case snd r of None \<Rightarrow> Inr (fst r) | Some err \<Rightarrow> Inl err)"

subsection \<open>\<^verbatim>\<open>ClickLabel.get_image_paths\<close>\<close>

text \<open>Lines 94 and 95, for a path that is not empty.\<close>

definition trailing_slash :: "string \<Rightarrow> string" where
  "trailing_slash p = (if last p \<noteq> CHR ''/'' then p @ ''/'' else p)"

text \<open>An index value as an element of the array of line 101.\<close>

definition path_text :: "env \<Rightarrow> pyval \<Rightarrow> string" where
  "path_text e v = (case v of PyStr s \<Rightarrow> s | _ \<Rightarrow> np_str e v)"

text \<open>\<^verbatim>\<open>path[-1]\<close> on the empty string is an IndexError; \<^verbatim>\<open>os.listdir\<close> raises
  where the folder cannot be listed.\<close>

definition get_image_paths :: "env \<Rightarrow> frame \<Rightarrow> string \<Rightarrow> error + string list" where
  "get_image_paths e res p =
     (if p = [] then Inl IndexError
      else
        let p' = trailing_slash p;
            labelled = map fst (body res)
        in case listdir e p' of
             None \<Rightarrow> Inl OSError
           | Some fs \<Rightarrow>
               Inr (sort (filter (\<lambda>q. PyStr q \<notin> set labelled) (map (\<lambda>f. p' @ f) fs))
                    @ map (path_text e) labelled))"

subsection \<open>\<^verbatim>\<open>ClickLabel.__init__\<close>\<close>

text \<open>
  The assertions of lines 48 to 57, in their order; what comes back is the first
  exception raised, if any. \<^verbatim>\<open>len(v)\<close> and \<^verbatim>\<open>v[0]\<close>, \<^verbatim>\<open>v[1]\<close> of lines 53 to 55
  raise their own exceptions, and \<^verbatim>\<open>and\<close> does not evaluate \<^verbatim>\<open>v[1]\<close> when
  \<^verbatim>\<open>v[0]\<close> is no string.
\<close>

definition assert :: "bool \<Rightarrow> error option" where
  "assert b = (if b then None else Some AssertionError)"

definition check_list_like :: "pyval \<Rightarrow> error option" where
  "check_list_like v =
     (if \<not> isinstance_Iterable v then Some AssertionError
      else
        (case py_len v of
           Inl err \<Rightarrow> Some err
         | Inr n \<Rightarrow>
             (if n \<noteq> 2 then Some AssertionError
              else
                (case py_getitem v 0 of
                   Inl err \<Rightarrow> Some err
                 | Inr x0 \<Rightarrow>
                     (if \<not> isinstance_str x0 then Some AssertionError
                      else
                        (case py_getitem v 1 of
                           Inl err \<Rightarrow> Some err
                         | Inr x1 \<Rightarrow> assert (isinstance_str x1)))))))"

fun first_error :: "error option list \<Rightarrow> error option" where
  "first_error [] = None"
| "first_error (None # rs) = first_error rs"
| "first_error (Some err # rs) = Some err"

definition arguments_error :: "pyval \<Rightarrow> pyval \<Rightarrow> pyval \<Rightarrow> pyval \<Rightarrow> pyval \<Rightarrow> pyval \<Rightarrow> pyval
    \<Rightarrow> error option" where
  "arguments_error data_folder result_path' label_options' color_options' rows' columns' fontsize' =
     first_error
       [assert (isinstance_str data_folder), assert (isinstance_str result_path'),
        check_list_like label_options', check_list_like color_options',
        assert (isinstance_int rows'), assert (isinstance_int columns'),
        assert (isinstance_int fontsize')]"

definition check_arguments :: "pyval \<Rightarrow> pyval \<Rightarrow> pyval \<Rightarrow> pyval \<Rightarrow> pyval \<Rightarrow> pyval \<Rightarrow> pyval
    \<Rightarrow> bool" where
  "check_arguments data_folder result_path' label_options' color_options' rows' columns' fontsize' =
     (arguments_error data_folder result_path' label_options' color_options'
        rows' columns' fontsize' = None)"

text \<open>\<^verbatim>\<open>v[i]\<close> where line 54 has shown that it returns.\<close>

definition item :: "pyval \<Rightarrow> nat \<Rightarrow> pyval" where
  "item v i = (case py_getitem v i of Inr x \<Rightarrow> x | Inl err \<Rightarrow> PyNone)"

definition init :: "env \<Rightarrow> world \<Rightarrow> pyval \<Rightarrow> pyval \<Rightarrow> pyval \<Rightarrow> pyval \<Rightarrow> pyval \<Rightarrow> pyval \<Rightarrow> pyval
    \<Rightarrow> error + ClickLabel" where
  "init e w data_folder result_path' label_options' color_options' rows' columns' fontsize' =
     (case arguments_error data_folder result_path' label_options' color_options'
             rows' columns' fontsize' of
        Some err \<Rightarrow> Inl err
      | None \<Rightarrow>
         (case result_table (disk w) (str_of result_path') of
            Inl err \<Rightarrow> Inl err
          | Inr res \<Rightarrow>
              (case get_image_paths e res (str_of data_folder) of
                 Inl err \<Rightarrow> Inl err
               | Inr ps \<Rightarrow>
                   Inr \<lparr>rows = rows', columns = columns', fontsize = fontsize',
                        num = int_of rows' * int_of columns',
                        result_path = str_of result_path',
                        result = res,
                        image_paths = ps,
                        images = [],
                        label_options = label_options',
                        color_options = color_options',
                        click_map = map_of (zip [1, 3] (py_iter label_options')),
                        color_map = [str_of (item label_options' 0) \<mapsto> item color_options' 0,
                                     str_of (item label_options' 1) \<mapsto> item color_options' 1,
                                     ''None'' \<mapsto> PyBool False]\<rparr>)))"

subsection \<open>\<^verbatim>\<open>ClickLabel.onclick\<close>\<close>

text \<open>
  A click carries its button number and the Axes it fell in, if any. The loop of line 107
  visits the tiles in order; an exception (the KeyError of line 113, or one raised while
  a tile redraws) ends the handler with the tiles as they are at that moment.
\<close>

record event =
  button :: int
  inaxes :: "nat option"

fun onclick_loop :: "env \<Rightarrow> ClickLabel \<Rightarrow> event \<Rightarrow> SingleImage list
    \<Rightarrow> SingleImage list \<times> error option" where
  "onclick_loop e self ev [] = ([], None)"
| "onclick_loop e self ev (img # rest) =
     (if inaxes ev = Some (ax img) then
        (case click_map self (button ev) of
           None \<Rightarrow> (img # rest, Some KeyError)
         | Some l \<Rightarrow>
             let lbl = (if py_eq l (label img) then PyStr ''None'' else l)
             in if lookup (color_map self) lbl = None then (img # rest, Some KeyError)
                else
                  let u = update e (color_map self) lbl (PyStr (current_time e)) img
                  in if snd u \<noteq> None then (fst u # rest, snd u)
                     else apfst (Cons (fst u)) (onclick_loop e self ev rest))
      else apfst (Cons img) (onclick_loop e self ev rest))"

definition onclick :: "env \<Rightarrow> event \<Rightarrow> ClickLabel \<Rightarrow> ClickLabel \<times> error option" where
  "onclick e ev self =
     (if click_map self (button ev) \<noteq> None
      then (case onclick_loop e self ev (images self) of
              (imgs, r) \<Rightarrow> (self\<lparr>images := imgs\<rparr>, r))
      else (self, None))"

subsection \<open>\<^verbatim>\<open>ClickLabel.labelling_grid\<close>\<close>

text \<open>The loop of lines 125 to 127; a refused assignment raises and leaves the table as
  the earlier tiles made it.\<close>

fun store_labels :: "SingleImage list \<Rightarrow> frame \<Rightarrow> frame \<times> error option" where
  "store_labels [] df = (df, None)"
| "store_labels (i # is) df =
     (case loc_set df (path i) [label i, timestamp i] of
        Inl err \<Rightarrow> (df, Some err)
      | Inr df' \<Rightarrow> store_labels is df')"

text \<open>The loop of lines 140 to 144: one new Axes and one tile per path; the tile is
  appended only when its constructor returned.\<close>

fun add_images :: "env \<Rightarrow> ClickLabel \<Rightarrow> string list \<Rightarrow> nat \<Rightarrow> SingleImage list \<Rightarrow> nat
    \<Rightarrow> (SingleImage list \<times> nat) \<times> error option" where
  "add_images e self [] idx imgs nx = ((imgs, nx), None)"
| "add_images e self (f # fs) idx imgs nx =
     (case add_subplot_error e (rows self) (columns self) (idx + 1) of
        Some err \<Rightarrow> ((imgs, nx), Some err)
      | None \<Rightarrow>
          (case SingleImage_init e self f nx of
             Inl err \<Rightarrow> ((imgs, Suc nx), Some err)
           | Inr img \<Rightarrow> add_images e self fs (Suc idx) (imgs @ [img]) (Suc nx)))"

text \<open>
  Lines 124 to 132: with tiles from an earlier grid, store their labels, save the table,
  move the shown paths to the end. An exception of the loop leaves the table half
  updated; an OSError of \<^verbatim>\<open>to_csv\<close> leaves the table updated, the file as it was
  and the sequence not rotated.
\<close>

definition flush_page :: "env \<Rightarrow> ClickLabel \<times> world \<Rightarrow> (ClickLabel \<times> world) \<times> error option" where
  "flush_page e sw =
     (case sw of (self, w) \<Rightarrow>
        if length (images self) > 0 then
          (case store_labels (images self) (result self) of
             (df, Some err) \<Rightarrow> ((self\<lparr>result := df\<rparr>, w), Some err)
           | (df, None) \<Rightarrow>
               (case to_csv e (result_path self) df of
                  Inl err \<Rightarrow> ((self\<lparr>result := df\<rparr>, w), Some err)
                | Inr content \<Rightarrow>
                    ((self\<lparr>result := df,
                            image_paths := slice_from (num self) (image_paths self)
                                           @ slice_to (num self) (image_paths self)\<rparr>,
                      w\<lparr>disk := (disk w)(result_path self \<mapsto> content)\<rparr>), None)))
        else ((self, w), None))"

text \<open>Lines 135 to 144: the new figure, then the new tiles. The calls after the loop
  (connecting the handler, layout, show) change nothing of the session.\<close>

definition build_page :: "env \<Rightarrow> ClickLabel \<times> world \<Rightarrow> (ClickLabel \<times> world) \<times> error option" where
  "build_page e sw =
     (case sw of (self, w) \<Rightarrow>
        (case figure_error e (rows self) of
           Some err \<Rightarrow> ((self, w), Some err)
         | None \<Rightarrow>
            (case add_images e (self\<lparr>images := []\<rparr>)
                    (slice_to (num self) (image_paths self)) 0 [] (next_ax w) of
               ((imgs, nx), r) \<Rightarrow> ((self\<lparr>images := imgs\<rparr>, w\<lparr>next_ax := nx\<rparr>), r))))"

definition labelling_grid :: "env \<Rightarrow> ClickLabel \<times> world \<Rightarrow> (ClickLabel \<times> world) \<times> error option" where
  "labelling_grid e sw =
     (case flush_page e sw of
        (sw', Some err) \<Rightarrow> (sw', Some err)
      | (sw', None) \<Rightarrow> build_page e sw')"

subsection \<open>A session as a sequence of operator actions\<close>

text \<open>The operator clicks and calls \<open>labelling_grid\<close>, each time in the
  environment of that moment (the clock has moved on). An exception ends the call and
  leaves the session as it is then.\<close>

datatype action = is_Click: Click event | Render

fun step :: "env \<Rightarrow> action \<Rightarrow> ClickLabel \<times> world \<Rightarrow> ClickLabel \<times> world" where
  "step e (Click ev) (self, w) = (fst (onclick e ev self), w)"
| "step e Render (self, w) = fst (labelling_grid e (self, w))"

fun run :: "(env \<times> action) list \<Rightarrow> ClickLabel \<times> world \<Rightarrow> ClickLabel \<times> world" where
  "run [] sw = sw"
| "run (ea # as) sw = run as (step (fst ea) (snd ea) sw)"

subsection \<open>What the documentation asks of the arguments\<close>





subsection \<open>Notions used in the properties\<close>




subsection \<open>Example data\<close>

text \<open>A \<^verbatim>\<open>to_csv\<close> that always succeeds and whose file reads back cell by cell as
  it was written.\<close>

definition plain_to_csv :: "string \<Rightarrow> frame \<Rightarrow> error + csv_file" where
  "plain_to_csv p df =
     Inr (Csv (index_name df # col_names df) (map (\<lambda>(k, cs). k # cs) (body df)))"

text \<open>A data folder with two files, a clock, the two default colours, a grid that
  accepts positive sizes.\<close>

definition example_env :: env where
  "example_env = \<lparr>listdir = [''data/'' \<mapsto> [''b.png'', ''a.png'']],
     now = ''2020-05-17 10:21:33.123456'',
     to_rgb_ok = (\<lambda>c. c = ''red'' \<or> c = ''blue''),
     figure_error = (\<lambda>r. None),
     add_subplot_error = (\<lambda>r c i. if 0 < int_of r \<and> 0 < int_of c \<and> int i \<le> int_of r * int_of c
                                     then None else Some ValueError),
     np_str = (\<lambda>v. ''nan''),
     to_csv = plain_to_csv\<rparr>"

definition fresh_world :: world where
  "fresh_world = \<lparr>disk = Map.empty, next_ax = 0\<rparr>"

definition broken_world :: world where
  "broken_world = \<lparr>disk = [''labels/df.csv'' \<mapsto>
       Csv [''filename'', ''label''] [[PyStr ''data/a.png'', PyStr ''Cat meme'']]], next_ax = 0\<rparr>"

definition ragged_world :: world where
  "ragged_world = \<lparr>disk = [''labels/df.csv'' \<mapsto>
       Csv [''filename'', ''label'', ''timestamp'']
         [[PyStr ''data/a.png'', PyStr ''Cat meme'', PyStr ''2020-05-01 09:00:00'', PyStr ''x'']]],
     next_ax = 0\<rparr>"

text \<open>A table with one labelled image, and a folder that no longer holds it.\<close>

definition cat_table :: frame where
  "cat_table = \<lparr>index_name = ''filename'', col_names = [''label'', ''timestamp''],
     body = [(PyStr ''data/a.png'', [PyStr ''Cat meme'', PyStr ''2020-05-01 09:00:00''])]\<rparr>"

definition one_file_env :: env where
  "one_file_env = example_env\<lparr>listdir := [''data/'' \<mapsto> [''b.png'']]\<rparr>"

text \<open>The session of the default arguments over the example folder, a later moment,
  and a left click on the first tile.\<close>

definition example_session :: ClickLabel where
  "example_session = projr (init example_env fresh_world (PyStr ''data'') (PyStr ''labels/df.csv'')
        (PyList [PyStr ''Cat meme'', PyStr ''Dog meme'']) (PyList [PyStr ''red'', PyStr ''blue''])
        (PyInt 2) (PyInt 4) (PyInt 10))"

definition later_env :: env where
  "later_env = example_env\<lparr>now := ''2020-05-17 10:22:40.000001''\<rparr>"

definition left_on_first :: event where
  "left_on_first = \<lparr>button = 1, inaxes = Some 0\<rparr>"

definition right_on_first :: event where
  "right_on_first = \<lparr>button = 3, inaxes = Some 0\<rparr>"





section \<open>Properties\<close>

subsection \<open>Auxiliary facts\<close>

lemma slice_rotate_mset: "mset (slice_from n xs @ slice_to n xs) = mset xs"
proof -
  have "mset (drop k xs) + mset (take k xs) = mset xs" for k
    by (metis add.commute append_take_drop_id mset_append)
  then show ?thesis by (simp add: slice_from_def slice_to_def)
qed

lemma flush_page_image_paths:
  "mset (image_paths (fst (fst (flush_page e (self, w))))) = mset (image_paths self)"
  using slice_rotate_mset [of "num self" "image_paths self"]
  by (simp add: flush_page_def split: prod.splits option.splits sum.splits)

lemma build_page_image_paths:
  "image_paths (fst (fst (build_page e (self, w)))) = image_paths self"
  by (simp add: build_page_def split: prod.splits option.splits)

lemma index_of_None: "index_of x xs = None \<longleftrightarrow> x \<notin> set xs"
  by (induction xs) auto

lemma index_of_Some: "index_of x xs = Some i \<Longrightarrow> i < length xs \<and> xs ! i = x"
  by (induction xs arbitrary: i) (auto split: if_splits)

lemma set_remove_nth_other:
  "index_of x xs = Some i \<Longrightarrow> y \<noteq> x \<Longrightarrow> y \<in> set (remove_nth i xs) \<longleftrightarrow> y \<in> set xs"
proof (induction xs arbitrary: i)
  case Nil
  then show ?case by simp
next
  case (Cons a xs)
  show ?case
  proof (cases "x = a")
    case True
    with Cons.prems show ?thesis by (auto simp: remove_nth_def)
  next
    case False
    with Cons.prems obtain j where j: "index_of x xs = Some j" "i = Suc j" by auto
    from Cons.IH [OF j(1) Cons.prems(2)] j(2) show ?thesis
      by (auto simp: remove_nth_def)
  qed
qed

lemma read_csv_columns:
  "read_csv content c = Inr df \<Longrightarrow> y \<noteq> c \<Longrightarrow>
   \<exists>h ls. content = Csv h ls \<and> c \<in> set h \<and> (y \<in> set (col_names df) \<longleftrightarrow> y \<in> set h)"
proof (cases content)
  case NotCsv
  assume "read_csv content c = Inr df"
  with NotCsv show ?thesis by simp
next
  case (Csv h ls)
  assume r: "read_csv content c = Inr df" and ne: "y \<noteq> c"
  from r Csv obtain i where i: "index_of c h = Some i" "col_names df = remove_nth i h"
    by (auto split: option.splits if_splits)
  from i(1) have "c \<in> set h" using index_of_None [of c h] by auto
  with Csv i set_remove_nth_other [OF i(1) ne] show ?thesis by simp
qed

lemma read_csv_long_row:
  "\<exists>r \<in> set ls. length h < length r \<Longrightarrow> read_csv (Csv h ls) c = Inl ValueError"
  by (auto simp: list_all_iff split: option.splits)

lemma set_column_names:
  "set (col_names (set_column c vals df)) = insert c (set (col_names df))"
  using index_of_None [of c "col_names df"]
  by (auto simp: set_column_def split: option.splits)

lemma result_table_missing_column:
  assumes "disk' p = Some content" and "read_csv content ''filename'' = Inr df"
    and "''label'' \<notin> set (col_names df) \<or> ''timestamp'' \<notin> set (col_names df)"
  shows "result_table disk' p = Inl ValueError"
proof (cases "''label'' \<in> set (col_names df)")
  case False
  then have "index_of ''label'' (col_names df) = None"
    using index_of_None [of "''label''" "col_names df"] by blast
  then have "get_column ''label'' df = Inl KeyError"
    by (simp add: get_column_def)
  with assms(1,2) show ?thesis by (simp add: result_table_def)
next
  case True
  with assms(3) have nt: "''timestamp'' \<notin> set (col_names df)" by simp
  have "sort_values ''done'' ''timestamp'' df' = Inl KeyError"
    if "set (col_names df') = insert ''done'' (set (col_names df))" for df'
  proof -
    from that nt have "''timestamp'' \<notin> set (col_names df')" by simp
    then have "index_of ''timestamp'' (col_names df') = None"
      using index_of_None [of "''timestamp''" "col_names df'"] by blast
    then show ?thesis by (simp add: sort_values_def split: option.splits)
  qed
  with assms(1,2) set_column_names show ?thesis
    by (simp add: result_table_def split: sum.splits)
qed

lemma result_table_malformed:
  assumes "disk' p = Some content"
    and "content = NotCsv \<or> (\<exists>h ls. content = Csv h ls
           \<and> (\<not> {''filename'', ''label'', ''timestamp''} \<subseteq> set h
               \<or> (\<exists>r \<in> set ls. length h < length r)))"
  shows "result_table disk' p = Inl ValueError"
proof (cases "read_csv content ''filename''")
  case (Inl a)
  with assms(1) show ?thesis by (simp add: result_table_def)
next
  case (Inr df)
  from read_csv_columns [OF Inr, of "''label''"] read_csv_columns [OF Inr, of "''timestamp''"]
  obtain h ls where h: "content = Csv h ls" "''filename'' \<in> set h"
    "''label'' \<in> set (col_names df) \<longleftrightarrow> ''label'' \<in> set h"
    "''timestamp'' \<in> set (col_names df) \<longleftrightarrow> ''timestamp'' \<in> set h"
    by auto
  from Inr h(1) have "\<not> (\<exists>r \<in> set ls. length h < length r)"
    using read_csv_long_row [of ls h "''filename''"] by auto
  with assms(2) h have "''label'' \<notin> set (col_names df) \<or> ''timestamp'' \<notin> set (col_names df)"
    by auto
  with result_table_missing_column [of disk' p content df] assms(1) Inr show ?thesis
    by blast
qed

























lemma example_session_eval:
  "init example_env fresh_world (PyStr ''data'') (PyStr ''labels/df.csv'')
        (PyList [PyStr ''Cat meme'', PyStr ''Dog meme'']) (PyList [PyStr ''red'', PyStr ''blue''])
        (PyInt 2) (PyInt 4) (PyInt 10) = Inr example_session"
  by (simp add: example_session_def init_def arguments_error_def check_list_like_def assert_def
      result_table_def get_image_paths_def trailing_slash_def example_env_def fresh_world_def
      empty_table_def)

lemma example_session_fields:
  "images example_session = [] \<and> image_paths example_session = [''data/a.png'', ''data/b.png'']
   \<and> num example_session = 8 \<and> result example_session = empty_table
   \<and> rows example_session = PyInt 2 \<and> columns example_session = PyInt 4
   \<and> result_path example_session = ''labels/df.csv''
   \<and> color_map example_session = [''Cat meme'' \<mapsto> PyStr ''red'', ''Dog meme'' \<mapsto> PyStr ''blue'',
                                   ''None'' \<mapsto> PyBool False]
   \<and> click_map example_session = map_of [(1, PyStr ''Cat meme''), (3, PyStr ''Dog meme'')]"
  by (simp add: example_session_def init_def arguments_error_def check_list_like_def assert_def
      result_table_def get_image_paths_def trailing_slash_def example_env_def fresh_world_def
      empty_table_def item_def)



lemma step_Click: "step e (Click ev) sw = (fst (onclick e ev (fst sw)), snd sw)"
  by (cases sw) simp


lemma run_append: "run (as @ bs) sw = run bs (run as sw)"
  by (induction as arbitrary: sw) auto

lemma clicks_frame:
  "list_all (\<lambda>a. is_Click (snd a)) clicks \<Longrightarrow>
   result (fst (run clicks sw)) = result (fst sw) \<and> snd (run clicks sw) = snd sw"
proof (induction clicks arbitrary: sw)
  case Nil
  then show ?case by simp
next
  case (Cons a clicks)
  then obtain ev where ev: "snd a = Click ev" by (cases "snd a") auto
  have "result (fst (step (fst a) (snd a) sw)) = result (fst sw)
      \<and> snd (step (fst a) (snd a) sw) = snd sw"
    using ev by (simp add: step_Click onclick_def case_prod_beta)
  with Cons show ?case by simp
qed

lemma init_images: "init e w df rp lo co r c f = Inr self \<Longrightarrow> images self = []"
  by (auto simp: init_def split: option.splits sum.splits)

lemma build_page_frame_table:
  "result (fst (fst (build_page e (self, w)))) = result self
   \<and> disk (snd (fst (build_page e (self, w)))) = disk w"
  by (simp add: build_page_def split: prod.splits option.splits)

lemma first_labelling_grid:
  "images self = [] \<Longrightarrow>
   result (fst (fst (labelling_grid e (self, w)))) = result self
   \<and> disk (snd (fst (labelling_grid e (self, w)))) = disk w"
  using build_page_frame_table [of e self w]
  by (simp add: labelling_grid_def flush_page_def)

lemma shown_page_state:
  "labelling_grid example_env (example_session, fresh_world)
   = ((example_session\<lparr>images :=
        [\<lparr>path = ''data/a.png'', ax = 0, label = PyStr ''None'', timestamp = PyStr ''2020-05-17 10:21:33''\<rparr>,
         \<lparr>path = ''data/b.png'', ax = 1, label = PyStr ''None'', timestamp = PyStr ''2020-05-17 10:21:33''\<rparr>]\<rparr>,
       fresh_world\<lparr>next_ax := 2\<rparr>), None)"
  by (simp add: labelling_grid_def flush_page_def build_page_def example_session_fields
      slice_to_def slice_bound_def SingleImage_init_def update_args_def update_def
      current_time_def empty_table_def example_env_def fresh_world_def)












subsection \<open>The click handler and the table\<close>

text \<open>
  C8. A click never changes the result table, the result path or anything on disk: the
  handler touches tiles only, and what the tiles hold reaches the table in
  \<open>labelling_grid\<close>.
\<close>

theorem onclick_leaves_result_and_disk:
  "result (fst (step e (Click ev) (self, w))) = result self
   \<and> result_path (fst (step e (Click ev) (self, w))) = result_path self
   \<and> snd (step e (Click ev) (self, w)) = w"
  by (simp add: onclick_def split: prod.splits)



subsection \<open>The session sequence\<close>

text \<open>
  C10. Whatever the state, a call of \<open>labelling_grid\<close> leaves the session sequence with
  the same paths, each as often as before, and so with the same length; this holds also
  when the call ends in an exception.
\<close>

theorem labelling_grid_permutes_image_paths:
  "mset (image_paths (fst (fst (labelling_grid e (self, w))))) = mset (image_paths self)
   \<and> length (image_paths (fst (fst (labelling_grid e (self, w))))) = length (image_paths self)"
proof -
  obtain self' w' r where f: "flush_page e (self, w) = ((self', w'), r)"
    by (metis surj_pair)
  have m: "mset (image_paths self') = mset (image_paths self)"
    using flush_page_image_paths [of e self w] f by simp
  have "mset (image_paths (fst (fst (labelling_grid e (self, w))))) = mset (image_paths self')"
    using f build_page_image_paths [of e self' w']
    by (cases r) (simp_all add: labelling_grid_def)
  with m have "mset (image_paths (fst (fst (labelling_grid e (self, w))))) = mset (image_paths self)"
    by simp
  then show ?thesis by (metis size_mset)
qed

subsection \<open>What reaches the table and the file, and when\<close>



text \<open>
  C9. The first call of \<open>labelling_grid\<close> after construction leaves the table and the
  files as they are, and so does that call followed by any clicks. In general the clicks
  made after a call of \<open>labelling_grid\<close> change neither the table nor any file: what
  they assign reaches both only in a further call, and after the last call never.
\<close>

theorem last_page_is_never_saved:
  assumes "init e0 w0 df rp lo co r c f = Inr self0"
    and "list_all (\<lambda>a. is_Click (snd a)) clicks"
  shows "result (fst (fst (labelling_grid e (self0, w0)))) = result self0
     \<and> disk (snd (fst (labelling_grid e (self0, w0)))) = disk w0
     \<and> result (fst (run ((e, Render) # clicks) (self0, w0))) = result self0
     \<and> disk (snd (run ((e, Render) # clicks) (self0, w0))) = disk w0
     \<and> result (fst (run (acts @ (e', Render) # clicks) sw))
         = result (fst (run (acts @ [(e', Render)]) sw))
     \<and> disk (snd (run (acts @ (e', Render) # clicks) sw))
         = disk (snd (run (acts @ [(e', Render)]) sw))"
proof -
  from init_images [OF assms(1)] have e0: "images self0 = []" .
  note f = first_labelling_grid [OF e0, of e w0]
  have c: "result (fst (run clicks sw')) = result (fst sw') \<and> snd (run clicks sw') = snd sw'" for sw'
    using clicks_frame [OF assms(2)] .
  have "run ((e, Render) # clicks) (self0, w0) = run clicks (fst (labelling_grid e (self0, w0)))"
    by simp
  with c f have one: "result (fst (run ((e, Render) # clicks) (self0, w0))) = result self0
     \<and> disk (snd (run ((e, Render) # clicks) (self0, w0))) = disk w0" by simp
  have "run (acts @ (e', Render) # clicks) sw = run clicks (run (acts @ [(e', Render)]) sw)"
    by (simp add: run_append)
  with c have two: "result (fst (run (acts @ (e', Render) # clicks) sw))
         = result (fst (run (acts @ [(e', Render)]) sw))
     \<and> disk (snd (run (acts @ (e', Render) # clicks) sw))
         = disk (snd (run (acts @ [(e', Render)]) sw))" by simp
  from f one two show ?thesis by simp
qed

theorem last_page_is_never_saved_witness:
  "init example_env fresh_world (PyStr ''data'') (PyStr ''labels/df.csv'')
        (PyList [PyStr ''Cat meme'', PyStr ''Dog meme'']) (PyList [PyStr ''red'', PyStr ''blue''])
        (PyInt 2) (PyInt 4) (PyInt 10) = Inr example_session
   \<and> list_all (\<lambda>a. is_Click (snd a)) [(later_env, Click left_on_first)]
   \<and> label (images (fst (run [(example_env, Render), (later_env, Click left_on_first)]
         (example_session, fresh_world))) ! 0) = PyStr ''Cat meme''
   \<and> result (fst (run [(example_env, Render), (later_env, Click left_on_first)]
         (example_session, fresh_world))) = empty_table
   \<and> disk (snd (run [(example_env, Render), (later_env, Click left_on_first)]
         (example_session, fresh_world))) ''labels/df.csv'' = None"
proof -
  have h2: "list_all (\<lambda>a. is_Click (snd a)) [(later_env, Click left_on_first)]" by simp
  have l: "label (images (fst (run [(example_env, Render), (later_env, Click left_on_first)]
         (example_session, fresh_world))) ! 0) = PyStr ''Cat meme''"
    by (simp add: shown_page_state onclick_def left_on_first_def Let_def
        example_session_fields py_eq_def update_def)
  show ?thesis
    using example_session_eval h2 l
      last_page_is_never_saved [OF example_session_eval h2, of example_env]
    by (simp add: example_session_fields fresh_world_def)
qed

subsection \<open>Loading the result table\<close>

text \<open>
  C7. Where no file exists at the result path, \<open>result_table\<close> returns the empty table
  with index \<open>filename\<close> and the columns \<open>label\<close> and \<open>timestamp\<close>; and the
  constructor, given arguments that pass its checks and a data folder that can be listed,
  returns a session holding that table.
\<close>

theorem missing_result_file_gives_empty_table:
  assumes "disk w (str_of rp) = None"
  shows "result_table (disk w) (str_of rp) = Inr empty_table
    \<and> index_name empty_table = ''filename''
    \<and> col_names empty_table = [''label'', ''timestamp'']
    \<and> body empty_table = []
    \<and> (check_arguments df rp lo co r c f \<and> get_image_paths e empty_table (str_of df) = Inr ps
        \<longrightarrow> (\<exists>self. init e w df rp lo co r c f = Inr self \<and> result self = empty_table))"
  using assms by (simp add: result_table_def init_def check_arguments_def empty_table_def)

theorem missing_result_file_gives_empty_table_witness:
  "disk fresh_world (str_of (PyStr ''labels/df.csv'')) = None
   \<and> check_arguments (PyStr ''data'') (PyStr ''labels/df.csv'')
        (PyList [PyStr ''Cat meme'', PyStr ''Dog meme'']) (PyList [PyStr ''red'', PyStr ''blue''])
        (PyInt 2) (PyInt 4) (PyInt 10)
   \<and> get_image_paths example_env empty_table (str_of (PyStr ''data''))
       = Inr [''data/a.png'', ''data/b.png'']
   \<and> result_table (disk fresh_world) ''labels/df.csv'' = Inr empty_table
   \<and> (\<exists>self. init example_env fresh_world (PyStr ''data'') (PyStr ''labels/df.csv'')
        (PyList [PyStr ''Cat meme'', PyStr ''Dog meme'']) (PyList [PyStr ''red'', PyStr ''blue''])
        (PyInt 2) (PyInt 4) (PyInt 10) = Inr self \<and> result self = empty_table)"
proof -
  have h1: "disk fresh_world (str_of (PyStr ''labels/df.csv'')) = None"
    by (simp add: fresh_world_def)
  have h2: "check_arguments (PyStr ''data'') (PyStr ''labels/df.csv'')
        (PyList [PyStr ''Cat meme'', PyStr ''Dog meme'']) (PyList [PyStr ''red'', PyStr ''blue''])
        (PyInt 2) (PyInt 4) (PyInt 10)"
    by (simp add: check_arguments_def arguments_error_def check_list_like_def assert_def)
  have h3: "get_image_paths example_env empty_table (str_of (PyStr ''data''))
       = Inr [''data/a.png'', ''data/b.png'']"
    by (simp add: get_image_paths_def trailing_slash_def example_env_def empty_table_def)
  show ?thesis
    using h1 h2 h3
      missing_result_file_gives_empty_table [OF h1, of "PyStr ''data''"
        "PyList [PyStr ''Cat meme'', PyStr ''Dog meme'']" "PyList [PyStr ''red'', PyStr ''blue'']"
        "PyInt 2" "PyInt 4" "PyInt 10" example_env "[''data/a.png'', ''data/b.png'']"]
    by simp
qed

text \<open>
  C5. Where the file at the result path cannot be read as a table, or is a table whose
  header lacks one of \<open>filename\<close>, \<open>label\<close>, \<open>timestamp\<close>, or has a row with
  more fields than the header, \<open>result_table\<close> raises the ValueError of line 87 and
  returns no table; the constructor, once its argument checks have passed, ends with that
  error.
\<close>

theorem malformed_result_file_raises:
  assumes "disk w (str_of rp) = Some content"
    and "content = NotCsv \<or> (\<exists>h ls. content = Csv h ls
           \<and> (\<not> {''filename'', ''label'', ''timestamp''} \<subseteq> set h
               \<or> (\<exists>r \<in> set ls. length h < length r)))"
  shows "result_table (disk w) (str_of rp) = Inl ValueError
    \<and> (check_arguments df rp lo co r c f \<longrightarrow> init e w df rp lo co r c f = Inl ValueError)"
  using result_table_malformed [of "disk w" "str_of rp" content] assms
  by (simp add: init_def check_arguments_def)

theorem malformed_result_file_raises_witness:
  "disk broken_world (str_of (PyStr ''labels/df.csv''))
     = Some (Csv [''filename'', ''label''] [[PyStr ''data/a.png'', PyStr ''Cat meme'']])
   \<and> \<not> {''filename'', ''label'', ''timestamp''} \<subseteq> set [''filename'', ''label'']
   \<and> check_arguments (PyStr ''data'') (PyStr ''labels/df.csv'')
        (PyList [PyStr ''Cat meme'', PyStr ''Dog meme'']) (PyList [PyStr ''red'', PyStr ''blue''])
        (PyInt 2) (PyInt 4) (PyInt 10)
   \<and> result_table (disk broken_world) ''labels/df.csv'' = Inl ValueError
   \<and> init example_env broken_world (PyStr ''data'') (PyStr ''labels/df.csv'')
        (PyList [PyStr ''Cat meme'', PyStr ''Dog meme'']) (PyList [PyStr ''red'', PyStr ''blue''])
        (PyInt 2) (PyInt 4) (PyInt 10) = Inl ValueError
   \<and> result_table (disk ragged_world) ''labels/df.csv'' = Inl ValueError"
proof -
  have h1: "disk broken_world (str_of (PyStr ''labels/df.csv''))
     = Some (Csv [''filename'', ''label''] [[PyStr ''data/a.png'', PyStr ''Cat meme'']])"
    by (simp add: broken_world_def)
  have h2: "Csv [''filename'', ''label''] [[PyStr ''data/a.png'', PyStr ''Cat meme'']] = NotCsv
     \<or> (\<exists>h ls. Csv [''filename'', ''label''] [[PyStr ''data/a.png'', PyStr ''Cat meme'']] = Csv h ls
           \<and> (\<not> {''filename'', ''label'', ''timestamp''} \<subseteq> set h
               \<or> (\<exists>r \<in> set ls. length h < length r)))"
    by simp
  have h3: "check_arguments (PyStr ''data'') (PyStr ''labels/df.csv'')
        (PyList [PyStr ''Cat meme'', PyStr ''Dog meme'']) (PyList [PyStr ''red'', PyStr ''blue''])
        (PyInt 2) (PyInt 4) (PyInt 10)"
    by (simp add: check_arguments_def arguments_error_def check_list_like_def assert_def)
  have k1: "disk ragged_world (str_of (PyStr ''labels/df.csv''))
     = Some (Csv [''filename'', ''label'', ''timestamp'']
         [[PyStr ''data/a.png'', PyStr ''Cat meme'', PyStr ''2020-05-01 09:00:00'', PyStr ''x'']])"
    by (simp add: ragged_world_def)
  have k2: "Csv [''filename'', ''label'', ''timestamp'']
         [[PyStr ''data/a.png'', PyStr ''Cat meme'', PyStr ''2020-05-01 09:00:00'', PyStr ''x'']] = NotCsv
     \<or> (\<exists>h ls. Csv [''filename'', ''label'', ''timestamp'']
         [[PyStr ''data/a.png'', PyStr ''Cat meme'', PyStr ''2020-05-01 09:00:00'', PyStr ''x'']] = Csv h ls
           \<and> (\<not> {''filename'', ''label'', ''timestamp''} \<subseteq> set h
               \<or> (\<exists>r \<in> set ls. length h < length r)))"
    by simp
  show ?thesis
    using h1 h3
      malformed_result_file_raises [OF h1 h2, of "PyStr ''data''"
        "PyList [PyStr ''Cat meme'', PyStr ''Dog meme'']" "PyList [PyStr ''red'', PyStr ''blue'']"
        "PyInt 2" "PyInt 4" "PyInt 10" example_env]
      malformed_result_file_raises [OF k1 k2]
    by simp
qed

subsection \<open>Enumerating the images\<close>

text \<open>
  C4. The list returned ends with every key of the table, also a key that is no entry of
  the folder: here the folder holds only \<open>b.png\<close>, the table still has
  \<open>data/a.png\<close>, and \<open>data/a.png\<close> is returned as an image of the folder.
\<close>

theorem get_image_paths_returns_stale_key:
  "listdir one_file_env ''data/'' = Some [''b.png'']
   \<and> get_image_paths one_file_env cat_table ''data/'' = Inr [''data/b.png'', ''data/a.png'']
   \<and> ''data/a.png'' \<notin> set [''data/'' @ ''b.png'']"
  by (simp add: get_image_paths_def trailing_slash_def path_text_def one_file_env_def
      example_env_def cat_table_def)

subsection \<open>Construction\<close>




end
